theory Spec2Isabelle
  imports Complex_Main
begin

section \<open>Python values, exceptions and the log\<close>

text \<open>
  The batch processor of \<^verbatim>\<open>template.py\<close> is embedded as pure functions that pass
  their state explicitly.  A value of a task parameter or a result of \<^verbatim>\<open>compute\<close> is a
  \<open>pyval\<close>; Python floats are read as reals, and no proof below uses a law of
  arithmetic on them.
\<close>

datatype pyval =
    PyNone
  | PyBool bool
  | PyInt int
  | PyFloat real
  | PyStr string
  | PyList "pyval list"

text \<open>
  Exceptions are values.  \<open>LibraryNotConfigured k\<close> is the
  \<^verbatim>\<open>RuntimeError(f"Library {k} not configured")\<close> of \<^verbatim>\<open>process_task\<close>, \<open>k\<close> being what
  \<^verbatim>\<open>task.params.get('lib_name')\<close> returned.  The last three classes derive from
  \<^verbatim>\<open>BaseException\<close> only, so a clause \<^verbatim>\<open>except Exception\<close> does not catch them.
\<close>

datatype exn =
    StopIteration
  | RuntimeError string
  | LibraryNotConfigured "pyval option"
  | TypeError string
  | ValueError string
  | ValidationError "string list"
  | ImportError string
  | AttributeError string
  | SystemExit int
  | KeyboardInterrupt
  | GeneratorExit

fun is_Exception :: "exn \<Rightarrow> bool" where
  "is_Exception (SystemExit c) = False"
| "is_Exception KeyboardInterrupt = False"
| "is_Exception GeneratorExit = False"
| "is_Exception e = True"

text \<open>One constructor for each call of the logging module in the source.\<close>

datatype log_record =
    GeneratorError string exn
  | LoadedLibrary string string
  | FailedToLoad string string
  | Entering string
  | Exiting string real
  | TaskSucceeded string real real
  | TaskFailed string exn
  | RunningCleanup
  | CleanupComplete
  | ReceivedSignal int
  | InvalidConfiguration exn
  | ShutdownRequested
  | FatalError exn
  | Completed int int int real real int

section \<open>Configuration, metrics and the environment\<close>

record LibraryConfig =
  name :: string
  version :: string

record TaskConfig =
  id' :: string
  params :: "string \<rightharpoonup> pyval"
  expected_value :: real

record AppConfig =
  threads :: int
  libraries :: "LibraryConfig list"
  tasks :: "TaskConfig list"

text \<open>
  The dictionary \<^verbatim>\<open>metrics\<close> of \<^verbatim>\<open>main\<close>.  The key \<^verbatim>\<open>'generator_errors'\<close> is absent
  until \<^verbatim>\<open>setdefault\<close> creates it.
\<close>

record metrics =
  task_count :: int
  success_count :: int
  failure_count :: int
  durations :: "real list"
  business_value :: real
  generator_errors :: "int option"

text \<open>
  A capability is the \<^verbatim>\<open>compute\<close> of a loaded module, called with the task's
  parameters: it returns a value or raises.  The registry \<^verbatim>\<open>libs\<close> holds module
  objects, which are always truthy, so \<^verbatim>\<open>not lib\<close> is the test for \<^verbatim>\<open>None\<close>.
\<close>

type_synonym capability = "(string \<rightharpoonup> pyval) \<Rightarrow> exn + pyval"

text \<open>
  What the program reads from outside: the clock, the shutdown event, the module
  importer and the thread pool.  \<open>now e k\<close> is the time, in seconds, returned by the
  \<open>k\<close>-th call of \<^verbatim>\<open>datetime.utcnow()\<close>, \<open>is_set e k\<close> the answer to the \<open>k\<close>-th call of
  \<^verbatim>\<open>shutdown_event.is_set()\<close>, \<open>submit_fault e k\<close> the exception the \<open>k\<close>-th
  \<^verbatim>\<open>executor.submit\<close> raises, if any.
\<close>

record env =
  now :: "nat \<Rightarrow> real"
  is_set :: "nat \<Rightarrow> bool"
  import_module :: "string \<Rightarrow> exn + capability"
  submit_fault :: "nat \<Rightarrow> exn option"

record world =
  clock_reads :: nat
  polls :: nat
  submits :: nat
  logged :: "log_record list"

definition utcnow :: "env \<Rightarrow> world \<Rightarrow> real \<times> world" where
  "utcnow e w = (now e (clock_reads w), w\<lparr>clock_reads := Suc (clock_reads w)\<rparr>)"

definition shutdown_is_set :: "env \<Rightarrow> world \<Rightarrow> bool \<times> world" where
  "shutdown_is_set e w = (is_set e (polls w), w\<lparr>polls := Suc (polls w)\<rparr>)"

definition logging :: "log_record \<Rightarrow> world \<Rightarrow> world" where
  "logging r w = w\<lparr>logged := logged w @ [r]\<rparr>"

section \<open>The task runner\<close>

text \<open>
  \<^verbatim>\<open>libs.get(task.params.get('lib_name'))\<close>: the keys of \<^verbatim>\<open>libs\<close> are strings, a list
  is unhashable, and every other key is simply not found.
\<close>

fun libs_get :: "(string \<rightharpoonup> capability) \<Rightarrow> pyval option \<Rightarrow> exn + capability option" where
  "libs_get libs (Some (PyStr s)) = Inr (libs s)"
| "libs_get libs (Some (PyList xs)) = Inl (TypeError ''unhashable type: list'')"
| "libs_get libs k = Inr None"

text \<open>The suite of the \<^verbatim>\<open>try\<close> in \<^verbatim>\<open>process_task\<close>; \<open>Inl\<close> is an exception raised in it.\<close>

definition process_task_try ::
  "env \<Rightarrow> TaskConfig \<Rightarrow> (string \<rightharpoonup> capability) \<Rightarrow> metrics \<Rightarrow> world
     \<Rightarrow> (exn + string \<times> pyval) \<times> metrics \<times> world" where
  "process_task_try e task libs m w =
     (let (start, w1) = utcnow e w in
      case libs_get libs (params task ''lib_name'') of
        Inl x \<Rightarrow> (Inl x, m, w1)
      | Inr None \<Rightarrow> (Inl (LibraryNotConfigured (params task ''lib_name'')), m, w1)
      | Inr (Some lib) \<Rightarrow>
          (case lib (params task) of
             Inl x \<Rightarrow> (Inl x, m, w1)
           | Inr result \<Rightarrow>
               (let (stop, w2) = utcnow e w1;
                    duration = stop - start;
                    m1 = m\<lparr>task_count := task_count m + 1\<rparr>;
                    m2 = m1\<lparr>success_count := success_count m1 + 1\<rparr>;
                    m3 = m2\<lparr>durations := durations m2 @ [duration]\<rparr>;
                    m4 = m3\<lparr>business_value := business_value m3 + expected_value task\<rparr>;
                    w3 = logging (TaskSucceeded (id' task) duration (expected_value task)) w2
                in (Inr (id' task, result), m4, w3))))"

text \<open>
  The undecorated function: the \<^verbatim>\<open>try\<close> with its clause \<^verbatim>\<open>except Exception\<close>.
\<close>

definition process_task_undecorated ::
  "env \<Rightarrow> TaskConfig \<Rightarrow> (string \<rightharpoonup> capability) \<Rightarrow> metrics \<Rightarrow> world
     \<Rightarrow> (exn + string \<times> pyval) \<times> metrics \<times> world" where
  "process_task_undecorated e task libs m w =
     (case process_task_try e task libs m w of
        (Inr out, m', w') \<Rightarrow> (Inr out, m', w')
      | (Inl x, m', w') \<Rightarrow>
          if is_Exception x then
            (let m1 = m'\<lparr>task_count := task_count m' + 1\<rparr>;
                 m2 = m1\<lparr>failure_count := failure_count m1 + 1\<rparr>;
                 w1 = logging (TaskFailed (id' task) x) w'
             in (Inr (id' task, PyNone), m2, w1))
          else (Inl x, m', w'))"

text \<open>
  The decorator \<^verbatim>\<open>trace\<close>: the wrapper reads the clock, logs, calls the function,
  and its \<^verbatim>\<open>finally\<close> reads the clock and logs on every way out.
\<close>

definition trace ::
  "env \<Rightarrow> string \<Rightarrow> (metrics \<Rightarrow> world \<Rightarrow> 'a \<times> metrics \<times> world)
     \<Rightarrow> metrics \<Rightarrow> world \<Rightarrow> 'a \<times> metrics \<times> world" where
  "trace e func_name func m w =
     (let (start, w1) = utcnow e w;
          w2 = logging (Entering func_name) w1;
          (r, m', w3) = func m w2;
          (stop, w4) = utcnow e w3;
          w5 = logging (Exiting func_name (stop - start)) w4
      in (r, m', w5))"

definition process_task ::
  "env \<Rightarrow> TaskConfig \<Rightarrow> (string \<rightharpoonup> capability) \<Rightarrow> metrics \<Rightarrow> world
     \<Rightarrow> (exn + string \<times> pyval) \<times> metrics \<times> world" where
  "process_task e task libs m w =
     trace e ''process_task'' (process_task_undecorated e task libs) m w"

section \<open>The task stream\<close>

text \<open>
  The iterator that \<^verbatim>\<open>GeneratorErrorHandler\<close> wraps is the list of what its
  successive \<^verbatim>\<open>next\<close> calls do: hand out an element or raise.  An exhausted
  iterator raises \<^verbatim>\<open>StopIteration\<close>.
\<close>

datatype 'a production = Yield 'a | Raise exn

fun next_gen :: "'a production list \<Rightarrow> (exn + 'a) \<times> 'a production list" where
  "next_gen [] = (Inl StopIteration, [])"
| "next_gen (Yield x # g) = (Inr x, g)"
| "next_gen (Raise x # g) = (Inl x, g)"

text \<open>
  \<open>has_metrics\<close> says that \<^verbatim>\<open>self.metrics\<close> is not \<^verbatim>\<open>None\<close>; it is then the
  dictionary that the function below receives and returns.
\<close>

record 'a GeneratorErrorHandler =
  gen :: "'a production list"
  has_metrics :: bool
  handler_name :: string

definition count_generator_error :: "metrics \<Rightarrow> metrics" where
  "count_generator_error m =
     (let m1 = (case generator_errors m of
                  None \<Rightarrow> m\<lparr>generator_errors := Some 0\<rparr>
                | Some n \<Rightarrow> m)
      in m1\<lparr>generator_errors := map_option (\<lambda>n. n + 1) (generator_errors m1)\<rparr>)"

definition handler_next ::
  "env \<Rightarrow> 'a GeneratorErrorHandler \<Rightarrow> metrics \<Rightarrow> world
     \<Rightarrow> (exn + 'a) \<times> 'a GeneratorErrorHandler \<times> metrics \<times> world" where
  "handler_next e h m w =
     (let (stopped, w1) = shutdown_is_set e w in
      if stopped then (Inl StopIteration, h, m, w1)
      else
        (case next_gen (gen h) of
           (Inr x, g) \<Rightarrow> (Inr x, h\<lparr>gen := g\<rparr>, m, w1)
         | (Inl x, g) \<Rightarrow>
             if x = StopIteration then (Inl x, h\<lparr>gen := g\<rparr>, m, w1)
             else if is_Exception x then
               (let w2 = logging (GeneratorError (handler_name h) x) w1;
                    m1 = (if has_metrics h then count_generator_error m else m)
                in (Inl x, h\<lparr>gen := g\<rparr>, m1, w2))
             else (Inl x, h\<lparr>gen := g\<rparr>, m, w1)))"

section \<open>Configuration loading\<close>

text \<open>
  The root validator of \<^verbatim>\<open>AppConfig\<close>, and \<^verbatim>\<open>parse_obj\<close> on a document whose
  fields have the declared types: the field constraint \<^verbatim>\<open>gt=0\<close> on \<^verbatim>\<open>threads\<close>, then
  the root validator, every failure collected into one \<^verbatim>\<open>ValidationError\<close>.
\<close>

definition check_unique_libraries_and_tasks :: "AppConfig \<Rightarrow> exn + AppConfig" where
  "check_unique_libraries_and_tasks values =
     (let libs = libraries values; ts = tasks values in
      if card (set (map name libs)) \<noteq> length libs then
        Inl (ValueError ''Duplicate library names in configuration'')
      else if card (set (map id' ts)) \<noteq> length ts then
        Inl (ValueError ''Duplicate task IDs in configuration'')
      else Inr values)"

definition parse_obj :: "AppConfig \<Rightarrow> exn + AppConfig" where
  "parse_obj doc =
     (let field_errors =
            (if 0 < threads doc then [] else [''ensure this value is greater than 0'']);
          root_errors =
            (case check_unique_libraries_and_tasks doc of
               Inl (ValueError msg) \<Rightarrow> [msg]
             | _ \<Rightarrow> [])
      in if field_errors @ root_errors = [] then Inr doc
         else Inl (ValidationError (field_errors @ root_errors)))"

definition module_name_of :: "LibraryConfig \<Rightarrow> string" where
  "module_name_of lib_cfg =
     name lib_cfg @ ''_v'' @ map (\<lambda>c. if c = CHR ''.'' then CHR ''_'' else c) (version lib_cfg)"

definition load_precompiled_library ::
  "env \<Rightarrow> LibraryConfig \<Rightarrow> world \<Rightarrow> (exn + capability) \<times> world" where
  "load_precompiled_library e lib_cfg w =
     (case import_module e (module_name_of lib_cfg) of
        Inr mdl \<Rightarrow>
          (Inr mdl, logging (LoadedLibrary (name lib_cfg) (module_name_of lib_cfg)) w)
      | Inl (ImportError msg) \<Rightarrow>
          (Inl (ImportError msg), logging (FailedToLoad (name lib_cfg) (version lib_cfg)) w)
      | Inl x \<Rightarrow> (Inl x, w))"

text \<open>
  The dictionary comprehension of \<^verbatim>\<open>main\<close> that builds \<^verbatim>\<open>libs\<close>: libraries are
  loaded in order, a later one replaces an earlier one of the same name, and the first
  exception ends it.
\<close>

fun load_libs ::
  "env \<Rightarrow> LibraryConfig list \<Rightarrow> (string \<rightharpoonup> capability) \<Rightarrow> world
     \<Rightarrow> (exn + (string \<rightharpoonup> capability)) \<times> world" where
  "load_libs e [] libs w = (Inr libs, w)"
| "load_libs e (lib_cfg # rest) libs w =
     (case load_precompiled_library e lib_cfg w of
        (Inl x, w1) \<Rightarrow> (Inl x, w1)
      | (Inr mdl, w1) \<Rightarrow> load_libs e rest (libs(name lib_cfg \<mapsto> mdl)) w1)"

section \<open>The run\<close>

definition cleanup :: "world \<Rightarrow> world" where
  "cleanup w = logging CleanupComplete (logging RunningCleanup w)"

definition initial_metrics :: metrics where
  "initial_metrics =
     \<lparr>task_count = 0, success_count = 0, failure_count = 0, durations = [],
      business_value = 0, generator_errors = None\<rparr>"

text \<open>
  The \<^verbatim>\<open>for\<close> loop of \<^verbatim>\<open>main\<close>.  The pool is read in its serial schedule: a submitted
  call of \<^verbatim>\<open>process_task\<close> runs to its end before the loop goes on.  What the call
  returns or raises stays in its future, which \<^verbatim>\<open>main\<close> never reads.
\<close>

function submit_loop ::
  "env \<Rightarrow> (string \<rightharpoonup> capability) \<Rightarrow> TaskConfig GeneratorErrorHandler \<Rightarrow> metrics \<Rightarrow> world
     \<Rightarrow> (exn + unit) \<times> metrics \<times> world" where
  "submit_loop e libs h m w =
     (case handler_next e h m w of
        (Inl x, h1, m1, w1) \<Rightarrow>
          if x = StopIteration then (Inr (), m1, w1) else (Inl x, m1, w1)
      | (Inr task, h1, m1, w1) \<Rightarrow>
          (let (stopped, w2) = shutdown_is_set e w1 in
           if stopped then (Inr (), m1, w2)
           else
             (let w3 = w2\<lparr>submits := Suc (submits w2)\<rparr> in
              case submit_fault e (submits w2) of
                Some x \<Rightarrow> (Inl x, m1, w3)
              | None \<Rightarrow>
                  (let (r, m2, w4) = process_task e task libs m1 w3
                   in submit_loop e libs h1 m2 w4))))"
  by pat_completeness auto
termination
  by (relation "measure (\<lambda>(e, libs, h, m, w). length (gen h))")
     (auto simp: handler_next_def shutdown_is_set_def Let_def
           split: if_splits prod.splits sum.splits elim!: next_gen.elims)

declare submit_loop.simps [simp del]

text \<open>
  The suite of the \<^verbatim>\<open>with\<close> statement.  In the serial schedule every future is done
  when \<^verbatim>\<open>wait\<close> is called, so \<^verbatim>\<open>not_done\<close> is empty and nothing is cancelled.
\<close>

definition with_executor ::
  "env \<Rightarrow> (string \<rightharpoonup> capability) \<Rightarrow> TaskConfig GeneratorErrorHandler \<Rightarrow> metrics \<Rightarrow> world
     \<Rightarrow> (exn + unit) \<times> metrics \<times> world" where
  "with_executor e libs h m w =
     (case submit_loop e libs h m w of
        (Inl x, m1, w1) \<Rightarrow> (Inl x, m1, w1)
      | (Inr u, m1, w1) \<Rightarrow>
          (let (stopped, w2) = shutdown_is_set e w1;
               w3 = (if stopped then logging ShutdownRequested w2 else w2)
           in (Inr (), m1, w3)))"

text \<open>
  The clause \<^verbatim>\<open>except Exception\<close> of \<^verbatim>\<open>main\<close>: what is pending after it.  An
  exception it does not catch stays pending.
\<close>

definition except_suite :: "exn \<Rightarrow> world \<Rightarrow> exn \<times> world" where
  "except_suite x w =
     (if is_Exception x then (SystemExit 1, logging (FatalError x) w) else (x, w))"

text \<open>
  The \<^verbatim>\<open>finally\<close> suite of \<^verbatim>\<open>main\<close>; it ends in \<^verbatim>\<open>sys.exit\<close>, so it always raises.
  \<^verbatim>\<open>fail or shutdown_event.is_set()\<close> asks the event only when \<^verbatim>\<open>fail\<close> is zero.
\<close>

definition finally_suite :: "env \<Rightarrow> metrics \<Rightarrow> world \<Rightarrow> exn \<times> world" where
  "finally_suite e m w =
     (let total = task_count m;
          succ = success_count m;
          fail = failure_count m;
          avg_time = (if succ \<noteq> 0 then sum_list (durations m) / real_of_int succ else 0);
          w1 = logging (Completed total succ fail avg_time (business_value m)
                          (case generator_errors m of None \<Rightarrow> 0 | Some n \<Rightarrow> n)) w;
          w2 = cleanup w1
      in if fail \<noteq> 0 then (SystemExit 1, w2)
         else (let (stopped, w3) = shutdown_is_set e w2
               in (SystemExit (if stopped then 1 else 0), w3)))"

text \<open>
  The \<^verbatim>\<open>try\<close> statement of \<^verbatim>\<open>main\<close>.  An exception raised in a \<^verbatim>\<open>finally\<close> suite
  replaces the one that was pending when the suite was entered.
\<close>

definition try_statement ::
  "env \<Rightarrow> (string \<rightharpoonup> capability) \<Rightarrow> TaskConfig GeneratorErrorHandler \<Rightarrow> metrics \<Rightarrow> world
     \<Rightarrow> exn \<times> metrics \<times> world" where
  "try_statement e libs h m w =
     (case with_executor e libs h m w of
        (Inr u, m1, w1) \<Rightarrow>
          (let (raised, w2) = finally_suite e m1 w1 in (raised, m1, w2))
      | (Inl x, m1, w1) \<Rightarrow>
          (let (pending, w2) = except_suite x w1;
               (raised, w3) = finally_suite e m1 w2
           in (raised, m1, w3)))"

text \<open>
  \<^verbatim>\<open>main\<close> from the reading of the configuration on.  It always ends by raising:
  \<^verbatim>\<open>SystemExit\<close>, or what the import of a library raised.  The metrics are returned
  beside it, \<open>None\<close> when the dictionary was never created.
\<close>

definition main :: "env \<Rightarrow> AppConfig \<Rightarrow> exn \<times> metrics option \<times> world" where
  "main e doc =
     (let w0 = \<lparr>clock_reads = 0, polls = 0, submits = 0, logged = []\<rparr> in
      case parse_obj doc of
        Inl x \<Rightarrow> (SystemExit 1, None, logging (InvalidConfiguration x) w0)
      | Inr cfg \<Rightarrow>
          (case load_libs e (libraries cfg) Map.empty w0 of
             (Inl x, w1) \<Rightarrow> (x, None, w1)
           | (Inr libs, w1) \<Rightarrow>
               (let h = \<lparr>gen = map Yield (tasks cfg), has_metrics = True,
                         handler_name = ''task_generator''\<rparr>;
                    (raised, m, w2) = try_statement e libs h initial_metrics w1
                in (raised, Some m, w2))))"

text \<open>The status of the process when \<^verbatim>\<open>main\<close> ends with the given exception.\<close>

fun exit_status :: "exn \<Rightarrow> int" where
  "exit_status (SystemExit c) = c"
| "exit_status KeyboardInterrupt = 130"
| "exit_status x = 1"

section \<open>Workers updating a counter\<close>





section \<open>Inputs of the tests\<close>

text \<open>
  The objects the unit tests build (\<^verbatim>\<open>FakeLib\<close>, the tasks \<^verbatim>\<open>t1\<close> and \<^verbatim>\<open>t2\<close>,
  \<^verbatim>\<open>broken_gen\<close>, the duplicate configurations), and a few more of the same kind: a
  task naming a library that is not configured, libraries whose \<^verbatim>\<open>compute\<close> leaves
  through \<^verbatim>\<open>sys.exit\<close> or is interrupted, an environment in which nothing happens and
  one in which the pool cannot start a thread.
\<close>

fun truthy :: "pyval option \<Rightarrow> bool" where
  "truthy None = False"
| "truthy (Some PyNone) = False"
| "truthy (Some (PyBool b)) = b"
| "truthy (Some (PyInt i)) = (i \<noteq> 0)"
| "truthy (Some (PyFloat r)) = (r \<noteq> 0)"
| "truthy (Some (PyStr s)) = (s \<noteq> [])"
| "truthy (Some (PyList xs)) = (xs \<noteq> [])"

definition FakeLib :: capability where
  "FakeLib p = (if truthy (p ''fail'') then Inl (ValueError ''bad'') else Inr (PyInt 42))"

definition ExitingLib :: capability where
  "ExitingLib p = Inl (SystemExit 2)"

definition InterruptedLib :: capability where
  "InterruptedLib p = Inl KeyboardInterrupt"

definition test_libs :: "string \<rightharpoonup> capability" where
  "test_libs = [''f'' \<mapsto> FakeLib, ''x'' \<mapsto> ExitingLib, ''i'' \<mapsto> InterruptedLib]"

definition t1 :: TaskConfig where
  "t1 = \<lparr>id' = ''t1'', params = [''lib_name'' \<mapsto> PyStr ''f'', ''x'' \<mapsto> PyFloat 1],
         expected_value = 2\<rparr>"

definition t2 :: TaskConfig where
  "t2 = \<lparr>id' = ''t2'', params = [''lib_name'' \<mapsto> PyStr ''f'', ''fail'' \<mapsto> PyBool True],
         expected_value = 2\<rparr>"

definition t3 :: TaskConfig where
  "t3 = \<lparr>id' = ''t3'', params = [''lib_name'' \<mapsto> PyStr ''missing''], expected_value = 1\<rparr>"

definition t4 :: TaskConfig where
  "t4 = \<lparr>id' = ''t4'', params = [''lib_name'' \<mapsto> PyStr ''x''], expected_value = 1\<rparr>"

definition t5 :: TaskConfig where
  "t5 = \<lparr>id' = ''t5'', params = [''lib_name'' \<mapsto> PyStr ''i''], expected_value = 1\<rparr>"

definition quiet_env :: env where
  "quiet_env =
     \<lparr>now = real, is_set = (\<lambda>k. False), import_module = (\<lambda>s. Inr FakeLib),
      submit_fault = (\<lambda>k. None)\<rparr>"

definition signalled_env :: env where
  "signalled_env = quiet_env\<lparr>is_set := (\<lambda>k. True)\<rparr>"

definition no_thread_env :: env where
  "no_thread_env =
     quiet_env\<lparr>submit_fault := (\<lambda>k. Some (RuntimeError ''cannot start new thread''))\<rparr>"

definition world0 :: world where
  "world0 = \<lparr>clock_reads = 0, polls = 0, submits = 0, logged = []\<rparr>"

definition broken_gen :: "int GeneratorErrorHandler" where
  "broken_gen =
     \<lparr>gen = [Yield 1, Raise (RuntimeError ''boom'')], has_metrics = True,
      handler_name = ''broken_gen''\<rparr>"

definition interrupted_gen :: "int GeneratorErrorHandler" where
  "interrupted_gen =
     \<lparr>gen = [Raise KeyboardInterrupt, Yield 1], has_metrics = True,
      handler_name = ''interrupted_gen''\<rparr>"

definition list_iterator :: "int GeneratorErrorHandler" where
  "list_iterator =
     \<lparr>gen = [Yield 1, Yield 2, Yield 3], has_metrics = False, handler_name = ''generator''\<rparr>"

definition duplicate_tasks :: AppConfig where
  "duplicate_tasks =
     \<lparr>threads = 1, libraries = [],
      tasks = [\<lparr>id' = ''t1'', params = Map.empty, expected_value = 1 / 10\<rparr>,
               \<lparr>id' = ''t1'', params = Map.empty, expected_value = 2 / 10\<rparr>]\<rparr>"

definition one_task :: AppConfig where
  "one_task =
     \<lparr>threads = 2, libraries = [\<lparr>name = ''f'', version = ''0.1''\<rparr>], tasks = [t1]\<rparr>"

definition no_tasks :: AppConfig where
  "no_tasks =
     \<lparr>threads = 2, libraries = [\<lparr>name = ''f'', version = ''0.1''\<rparr>], tasks = []\<rparr>"

section \<open>Facts about the task runner\<close>

lemmas runner_defs =
  process_task_def trace_def process_task_undecorated_def process_task_try_def
  utcnow_def logging_def Let_def eval_nat_numeral

lemmas stream_defs =
  handler_next_def shutdown_is_set_def count_generator_error_def logging_def Let_def

lemmas test_defs =
  FakeLib_def ExitingLib_def InterruptedLib_def test_libs_def t1_def t2_def t3_def t4_def
  t5_def quiet_env_def signalled_env_def no_thread_env_def world0_def initial_metrics_def

lemma libs_get_raises:
  "libs_get libs k = Inl x \<Longrightarrow> x = TypeError ''unhashable type: list''"
  by (erule libs_get.elims) simp_all

text \<open>
  The three ways through \<^verbatim>\<open>process_task\<close>, each with the whole result.  The clock is
  read by the wrapper, at the start of the \<^verbatim>\<open>try\<close>, after \<^verbatim>\<open>compute\<close> has returned
  (on that path only), and by the wrapper again.
\<close>

lemma process_task_success:
  assumes "libs_get libs (params task ''lib_name'') = Inr (Some lib)"
    and "lib (params task) = Inr result"
  shows "process_task e task libs m w =
    (Inr (id' task, result),
     m\<lparr>task_count := task_count m + 1, success_count := success_count m + 1,
       durations := durations m @ [now e (clock_reads w + 2) - now e (clock_reads w + 1)],
       business_value := business_value m + expected_value task\<rparr>,
     w\<lparr>clock_reads := clock_reads w + 4,
       logged := logged w @ [Entering ''process_task'',
          TaskSucceeded (id' task) (now e (clock_reads w + 2) - now e (clock_reads w + 1))
            (expected_value task),
          Exiting ''process_task'' (now e (clock_reads w + 3) - now e (clock_reads w))]\<rparr>)"
  using assms by (simp add: runner_defs)

lemma process_task_failed:
  assumes "\<forall>lib. libs_get libs (params task ''lib_name'') = Inr (Some lib) \<longrightarrow>
             (\<exists>x. lib (params task) = Inl x \<and> is_Exception x)"
  shows "\<exists>x. process_task e task libs m w =
    (Inr (id' task, PyNone),
     m\<lparr>task_count := task_count m + 1, failure_count := failure_count m + 1\<rparr>,
     w\<lparr>clock_reads := clock_reads w + 3,
       logged := logged w @ [Entering ''process_task'', TaskFailed (id' task) x,
          Exiting ''process_task'' (now e (clock_reads w + 2) - now e (clock_reads w))]\<rparr>)"
  using assms
  by (auto simp: runner_defs split: sum.splits option.splits dest: libs_get_raises)

lemma process_task_propagates:
  assumes "libs_get libs (params task ''lib_name'') = Inr (Some lib)"
    and "lib (params task) = Inl x" and "\<not> is_Exception x"
  shows "process_task e task libs m w =
    (Inl x, m,
     w\<lparr>clock_reads := clock_reads w + 3,
       logged := logged w @ [Entering ''process_task'',
          Exiting ''process_task'' (now e (clock_reads w + 2) - now e (clock_reads w))]\<rparr>)"
  using assms by (simp add: runner_defs)

lemma compute_raises_or_absent:
  assumes "\<forall>lib x. libs_get libs k = Inr (Some lib) \<and> lib p = Inl x \<longrightarrow> is_Exception x"
    and "\<not> (\<exists>lib res. libs_get libs k = Inr (Some lib) \<and> lib p = Inr res)"
  shows "\<forall>lib. libs_get libs k = Inr (Some lib) \<longrightarrow> (\<exists>x. lib p = Inl x \<and> is_Exception x)"
  using assms by (metis sum.exhaust)

section \<open>Facts about the run\<close>

lemma duplicates_card:
  "card (f ` set xs) \<noteq> length xs \<longleftrightarrow> \<not> distinct (map f xs)"
  using card_distinct [of "map f xs"] distinct_card [of "map f xs"] by auto

lemma parse_obj_duplicates:
  assumes "\<not> distinct (map name (libraries doc)) \<or> \<not> distinct (map id' (tasks doc))"
  shows "\<exists>msgs. parse_obj doc = Inl (ValidationError msgs)"
  using assms
  by (auto simp: parse_obj_def check_unique_libraries_and_tasks_def duplicates_card Let_def)

lemma submit_loop_empty:
  assumes "gen h = []" and "\<not> is_set e (polls w)"
  shows "submit_loop e libs h m w = (Inr (), m, w\<lparr>polls := Suc (polls w)\<rparr>)"
  using assms by (subst submit_loop.simps) (simp add: stream_defs)

lemma try_statement_empty:
  assumes "gen h = []" and "\<forall>k. \<not> is_set e k"
  shows "try_statement e libs h initial_metrics w =
     (SystemExit 0, initial_metrics,
      w\<lparr>polls := polls w + 3,
        logged := logged w @ [Completed 0 0 0 0 0 0, RunningCleanup, CleanupComplete]\<rparr>)"
  using assms
  by (simp add: try_statement_def with_executor_def submit_loop_empty finally_suite_def
      cleanup_def shutdown_is_set_def logging_def initial_metrics_def Let_def eval_nat_numeral)

text \<open>
  Whatever the suite of the \<^verbatim>\<open>with\<close> statement did, the \<^verbatim>\<open>try\<close> statement of
  \<^verbatim>\<open>main\<close> ends with the \<^verbatim>\<open>SystemExit\<close> of its \<^verbatim>\<open>finally\<close> suite: the status is
  decided by the failure count and by the last answer of the shutdown event alone.
\<close>

lemma try_statement_exit:
  "case try_statement e libs h m w of (x, m', w') \<Rightarrow>
     x = SystemExit (if failure_count m' \<noteq> 0 \<or> is_set e (polls w' - 1) then 1 else 0)"
  by (auto simp: try_statement_def except_suite_def finally_suite_def cleanup_def
      shutdown_is_set_def logging_def Let_def split: prod.splits sum.splits)

section \<open>The exit status\<close>

text \<open>
  C1. The exit status is to be zero only for a run that ended without a failure, without a
  shutdown request and without a fatal error.  In the run below the pool cannot start a
  thread, so the first \<^verbatim>\<open>executor.submit\<close> raises: the clause \<^verbatim>\<open>except Exception\<close>
  logs the fatal error and calls \<^verbatim>\<open>sys.exit(1)\<close>, and then the \<^verbatim>\<open>finally\<close> suite,
  with no failure counted and the event clear, calls \<^verbatim>\<open>sys.exit(0)\<close>, which replaces
  the pending exit.  The process reports status zero after a fatal error.
\<close>

theorem main_fatal_error_exit_zero:
  "main no_thread_env one_task =
     (SystemExit 0, Some initial_metrics,
      \<lparr>clock_reads = 0, polls = 3, submits = 1,
       logged = [LoadedLibrary ''f'' ''f_v0_1'',
                 FatalError (RuntimeError ''cannot start new thread''),
                 Completed 0 0 0 0 0 0, RunningCleanup, CleanupComplete]\<rparr>) \<and>
   exit_status (fst (main no_thread_env one_task)) = 0"
  by (simp add: main_def parse_obj_def check_unique_libraries_and_tasks_def one_task_def
      load_precompiled_library_def module_name_of_def try_statement_def with_executor_def
      except_suite_def finally_suite_def cleanup_def stream_defs test_defs submit_loop.simps)

section \<open>The task runner never lets an error escape\<close>

text \<open>
  C2, as the claim has it: whatever \<^verbatim>\<open>compute\<close> raises, the runner returns an outcome.
  It does not when \<^verbatim>\<open>compute\<close> leaves through \<^verbatim>\<open>sys.exit\<close>: \<^verbatim>\<open>SystemExit\<close> is not an
  \<^verbatim>\<open>Exception\<close>, the clause \<^verbatim>\<open>except Exception\<close> lets it pass, and the runner raises
  it to its caller with no failure counted.
\<close>

theorem process_task_exit_counterexample:
  "process_task quiet_env t4 test_libs initial_metrics world0 =
     (Inl (SystemExit 2), initial_metrics,
      \<lparr>clock_reads = 3, polls = 0, submits = 0,
       logged = [Entering ''process_task'', Exiting ''process_task'' 2]\<rparr>)"
  by (simp add: runner_defs test_defs)

text \<open>
  C2, amended: when every exception that \<^verbatim>\<open>compute\<close> raises is an \<^verbatim>\<open>Exception\<close>, the
  runner returns an outcome for the task, and unless a capability was found and its
  \<^verbatim>\<open>compute\<close> returned, both \<^verbatim>\<open>task_count\<close> and \<^verbatim>\<open>failure_count\<close> have grown by one
  and the failure is in the log.
\<close>

theorem process_task_returns:
  assumes "\<forall>lib x. libs_get libs (params task ''lib_name'') = Inr (Some lib) \<and>
             lib (params task) = Inl x \<longrightarrow> is_Exception x"
  shows "\<exists>res m' w'. process_task e task libs m w = (Inr (id' task, res), m', w') \<and>
           ((\<exists>lib. libs_get libs (params task ''lib_name'') = Inr (Some lib) \<and>
                   lib (params task) = Inr res) \<or>
            (task_count m' = task_count m + 1 \<and> failure_count m' = failure_count m + 1 \<and>
             (\<exists>x d. logged w' = logged w @
                [Entering ''process_task'', TaskFailed (id' task) x,
                 Exiting ''process_task'' d])))"
proof (cases "\<exists>lib res. libs_get libs (params task ''lib_name'') = Inr (Some lib) \<and>
                lib (params task) = Inr res")
  case True
  then obtain lib res where
    "libs_get libs (params task ''lib_name'') = Inr (Some lib)" "lib (params task) = Inr res"
    by blast
  then show ?thesis
    using process_task_success [where e = e and m = m and w = w] by auto
next
  case False
  from process_task_failed [OF compute_raises_or_absent [OF assms False],
      where e = e and m = m and w = w]
  show ?thesis by auto
qed

theorem process_task_returns_witness:
  "\<exists>res m' w'. process_task quiet_env t3 test_libs initial_metrics world0 =
       (Inr (''t3'', res), m', w') \<and>
     ((\<exists>lib. libs_get test_libs (params t3 ''lib_name'') = Inr (Some lib) \<and>
             lib (params t3) = Inr res) \<or>
      (task_count m' = 1 \<and> failure_count m' = 1 \<and>
       (\<exists>x d. logged w' =
          [Entering ''process_task'', TaskFailed ''t3'' x, Exiting ''process_task'' d])))"
  using process_task_returns [where libs = test_libs and task = t3 and e = quiet_env
      and m = initial_metrics and w = world0]
  by (simp add: test_defs)

section \<open>A successful task\<close>

text \<open>
  C3. When the capability named by the task is in the registry and its \<^verbatim>\<open>compute\<close>
  returns, one call of \<^verbatim>\<open>process_task\<close> returns the task's id with the computed result,
  adds one to \<^verbatim>\<open>task_count\<close> and to \<^verbatim>\<open>success_count\<close>, appends one duration (the clock
  after \<^verbatim>\<open>compute\<close> minus the clock at the start of the \<^verbatim>\<open>try\<close>), adds the task's
  \<^verbatim>\<open>expected_value\<close> to \<^verbatim>\<open>business_value\<close>, and leaves \<^verbatim>\<open>failure_count\<close> alone.
\<close>

theorem process_task_success_effect:
  assumes "libs_get libs (params task ''lib_name'') = Inr (Some lib)"
    and "lib (params task) = Inr result"
  shows "case process_task e task libs m w of (r, m', w') \<Rightarrow>
           r = Inr (id' task, result) \<and>
           task_count m' = task_count m + 1 \<and>
           success_count m' = success_count m + 1 \<and>
           durations m' =
             durations m @ [now e (clock_reads w + 2) - now e (clock_reads w + 1)] \<and>
           business_value m' = business_value m + expected_value task \<and>
           failure_count m' = failure_count m \<and>
           generator_errors m' = generator_errors m"
  by (simp add: process_task_success [OF assms])

theorem process_task_success_effect_witness:
  "libs_get test_libs (params t1 ''lib_name'') = Inr (Some FakeLib) \<and>
   FakeLib (params t1) = Inr (PyInt 42) \<and>
   (case process_task quiet_env t1 test_libs initial_metrics world0 of (r, m', w') \<Rightarrow>
     r = Inr (''t1'', PyInt 42) \<and> task_count m' = 1 \<and> success_count m' = 1 \<and>
     durations m' = [1] \<and> business_value m' = 2 \<and> failure_count m' = 0 \<and>
     generator_errors m' = None)"
proof -
  have found: "libs_get test_libs (params t1 ''lib_name'') = Inr (Some FakeLib)"
    by (simp add: test_defs)
  have returned: "FakeLib (params t1) = Inr (PyInt 42)"
    by (simp add: test_defs)
  from process_task_success_effect [OF found returned, where e = quiet_env
      and m = initial_metrics and w = world0]
  show ?thesis
    using found returned by (simp add: t1_def quiet_env_def world0_def initial_metrics_def)
qed

section \<open>Durations\<close>




section \<open>The task stream\<close>

text \<open>
  C6, as the claim has it: any exception other than the end of the sequence is logged,
  counted and raised again.  A \<^verbatim>\<open>KeyboardInterrupt\<close> raised by the iterator is not an
  \<^verbatim>\<open>Exception\<close>: the stream raises it again, but neither logs nor counts it.
\<close>

theorem handler_next_interrupted_counterexample:
  "handler_next quiet_env interrupted_gen initial_metrics world0 =
     (Inl KeyboardInterrupt, interrupted_gen\<lparr>gen := [Yield 1]\<rparr>, initial_metrics,
      world0\<lparr>polls := 1\<rparr>)"
  by (simp add: stream_defs test_defs interrupted_gen_def)

text \<open>
  C6, amended: when the event is clear and the iterator raises an \<^verbatim>\<open>Exception\<close> other
  than \<^verbatim>\<open>StopIteration\<close>, the stream logs it, raises the same exception, has used up
  that one step of the iterator and no more, and, if it was given a metrics dictionary,
  adds one to \<^verbatim>\<open>generator_errors\<close> there (a missing key counting as zero).
\<close>

theorem handler_next_error:
  assumes "\<not> is_set e (polls w)"
    and "next_gen (gen h) = (Inl x, g)"
    and "x \<noteq> StopIteration"
    and "is_Exception x"
  shows "handler_next e h m w =
     (Inl x, h\<lparr>gen := g\<rparr>,
      (if has_metrics h
       then m\<lparr>generator_errors :=
                Some ((case generator_errors m of None \<Rightarrow> 0 | Some n \<Rightarrow> n) + 1)\<rparr>
       else m),
      w\<lparr>polls := Suc (polls w),
        logged := logged w @ [GeneratorError (handler_name h) x]\<rparr>)"
  using assms by (simp add: stream_defs split: option.splits)

theorem handler_next_error_witness:
  "handler_next quiet_env (broken_gen\<lparr>gen := [Raise (RuntimeError ''boom'')]\<rparr>)
       initial_metrics world0 =
     (Inl (RuntimeError ''boom''), broken_gen\<lparr>gen := []\<rparr>,
      initial_metrics\<lparr>generator_errors := Some 1\<rparr>,
      world0\<lparr>polls := 1, logged := [GeneratorError ''broken_gen'' (RuntimeError ''boom'')]\<rparr>)"
  using handler_next_error [where e = quiet_env and w = world0
      and h = "broken_gen\<lparr>gen := [Raise (RuntimeError ''boom'')]\<rparr>"
      and x = "RuntimeError ''boom''" and g = "[]" and m = initial_metrics]
  by (simp add: quiet_env_def world0_def broken_gen_def initial_metrics_def)

text \<open>
  C7. A call of \<^verbatim>\<open>__next__\<close> that finds the shutdown event set raises
  \<^verbatim>\<open>StopIteration\<close> at once, whatever the iterator still holds; the iterator, the
  metrics and the log are as before.
\<close>

theorem handler_next_shutdown:
  assumes "is_set e (polls w)"
  shows "handler_next e h m w = (Inl StopIteration, h, m, w\<lparr>polls := Suc (polls w)\<rparr>)"
  using assms by (simp add: stream_defs)

theorem handler_next_shutdown_witness:
  "handler_next signalled_env list_iterator initial_metrics world0 =
     (Inl StopIteration, list_iterator, initial_metrics, world0\<lparr>polls := Suc (polls world0)\<rparr>)"
  using handler_next_shutdown [where e = signalled_env and w = world0 and h = list_iterator
      and m = initial_metrics]
  by (simp add: signalled_env_def)

section \<open>Configurations\<close>

text \<open>
  C8. A configuration with two libraries of one name or two tasks of one id is refused
  with a \<^verbatim>\<open>ValidationError\<close>; \<^verbatim>\<open>main\<close> logs it and exits with status 1 before the
  metrics exist: the clock was never read, nothing was submitted, and the log holds that
  one record, so no task ran.
\<close>

theorem main_duplicates:
  assumes "\<not> distinct (map name (libraries doc)) \<or> \<not> distinct (map id' (tasks doc))"
  shows "\<exists>msgs. parse_obj doc = Inl (ValidationError msgs) \<and>
           main e doc =
             (SystemExit 1, None,
              \<lparr>clock_reads = 0, polls = 0, submits = 0,
               logged = [InvalidConfiguration (ValidationError msgs)]\<rparr>) \<and>
           exit_status (fst (main e doc)) = 1"
proof -
  from parse_obj_duplicates [OF assms] obtain msgs
    where "parse_obj doc = Inl (ValidationError msgs)" ..
  then show ?thesis by (simp add: main_def logging_def)
qed

theorem main_duplicates_witness:
  "\<exists>msgs. parse_obj duplicate_tasks = Inl (ValidationError msgs) \<and>
     main quiet_env duplicate_tasks =
       (SystemExit 1, None,
        \<lparr>clock_reads = 0, polls = 0, submits = 0,
         logged = [InvalidConfiguration (ValidationError msgs)]\<rparr>) \<and>
     exit_status (fst (main quiet_env duplicate_tasks)) = 1"
  using main_duplicates [where doc = duplicate_tasks and e = quiet_env]
  by (simp add: duplicate_tasks_def)

text \<open>
  C9. For a valid configuration with no task, whose libraries load, and with the shutdown
  event never set, \<^verbatim>\<open>main\<close> ends with \<^verbatim>\<open>sys.exit(0)\<close>; the metrics are the initial ones
  and the summary reports no task, no success, no failure and an average time of zero.
\<close>

theorem main_no_tasks:
  assumes "parse_obj doc = Inr cfg"
    and "tasks cfg = []"
    and "load_libs e (libraries cfg) Map.empty world0 = (Inr libs, w)"
    and "\<forall>k. \<not> is_set e k"
  shows "main e doc =
     (SystemExit 0, Some initial_metrics,
      w\<lparr>polls := polls w + 3,
        logged := logged w @ [Completed 0 0 0 0 0 0, RunningCleanup, CleanupComplete]\<rparr>) \<and>
     exit_status (fst (main e doc)) = 0 \<and>
     task_count initial_metrics = 0 \<and> failure_count initial_metrics = 0"
proof -
  have "try_statement e libs \<lparr>gen = map Yield (tasks cfg), has_metrics = True,
          handler_name = ''task_generator''\<rparr> initial_metrics w =
     (SystemExit 0, initial_metrics,
      w\<lparr>polls := polls w + 3,
        logged := logged w @ [Completed 0 0 0 0 0 0, RunningCleanup, CleanupComplete]\<rparr>)"
    using assms(2,4) by (intro try_statement_empty) simp_all
  with assms(1,3) show ?thesis
    by (simp add: main_def world0_def initial_metrics_def)
qed

theorem main_no_tasks_witness:
  "main quiet_env no_tasks =
     (SystemExit 0, Some initial_metrics,
      \<lparr>clock_reads = 0, polls = 3, submits = 0,
       logged = [LoadedLibrary ''f'' ''f_v0_1'', Completed 0 0 0 0 0 0, RunningCleanup,
                 CleanupComplete]\<rparr>) \<and>
   exit_status (fst (main quiet_env no_tasks)) = 0"
proof -
  have valid: "parse_obj no_tasks = Inr no_tasks"
    by (simp add: parse_obj_def check_unique_libraries_and_tasks_def no_tasks_def)
  have empty: "tasks no_tasks = []"
    by (simp add: no_tasks_def)
  have loaded: "load_libs quiet_env (libraries no_tasks) Map.empty world0 =
      (Inr [''f'' \<mapsto> FakeLib], world0\<lparr>logged := [LoadedLibrary ''f'' ''f_v0_1'']\<rparr>)"
    by (simp add: no_tasks_def load_precompiled_library_def module_name_of_def quiet_env_def
        logging_def world0_def)
  have quiet: "\<forall>k. \<not> is_set quiet_env k"
    by (simp add: quiet_env_def)
  from main_no_tasks [OF valid empty loaded quiet] show ?thesis
    by (simp add: world0_def)
qed

section \<open>A failed task\<close>

text \<open>
  C10, as the claim has it: whenever the capability is absent or \<^verbatim>\<open>compute\<close> raises, the
  call returns the task's id with \<^verbatim>\<open>None\<close> and counts one task and one failure.  When
  \<^verbatim>\<open>compute\<close> is interrupted the call returns nothing and counts nothing: the
  \<^verbatim>\<open>KeyboardInterrupt\<close> goes to the caller and the metrics are as before.
\<close>

theorem process_task_interrupted_counterexample:
  "process_task quiet_env t5 test_libs initial_metrics world0 =
     (Inl KeyboardInterrupt, initial_metrics,
      \<lparr>clock_reads = 3, polls = 0, submits = 0,
       logged = [Entering ''process_task'', Exiting ''process_task'' 2]\<rparr>)"
  by (simp add: runner_defs test_defs)

text \<open>
  C10, amended: when no capability is found for the task, or the one found raises an
  \<^verbatim>\<open>Exception\<close>, the call returns the task's id with \<^verbatim>\<open>None\<close>, adds one to
  \<^verbatim>\<open>task_count\<close> and to \<^verbatim>\<open>failure_count\<close>, and leaves \<^verbatim>\<open>success_count\<close>,
  \<^verbatim>\<open>durations\<close>, \<^verbatim>\<open>business_value\<close> and the generator-error count as they were.
\<close>

theorem process_task_failure_frame:
  assumes "\<forall>lib. libs_get libs (params task ''lib_name'') = Inr (Some lib) \<longrightarrow>
             (\<exists>x. lib (params task) = Inl x \<and> is_Exception x)"
  shows "case process_task e task libs m w of (r, m', w') \<Rightarrow>
           r = Inr (id' task, PyNone) \<and>
           task_count m' = task_count m + 1 \<and>
           failure_count m' = failure_count m + 1 \<and>
           success_count m' = success_count m \<and>
           durations m' = durations m \<and>
           business_value m' = business_value m \<and>
           generator_errors m' = generator_errors m"
  using process_task_failed [OF assms, where e = e and m = m and w = w] by auto

theorem process_task_failure_frame_witness:
  "case process_task quiet_env t2 test_libs initial_metrics world0 of (r, m', w') \<Rightarrow>
     r = Inr (''t2'', PyNone) \<and> task_count m' = 1 \<and> failure_count m' = 1 \<and>
     success_count m' = 0 \<and> durations m' = [] \<and> business_value m' = 0 \<and>
     generator_errors m' = None"
  using process_task_failure_frame [where libs = test_libs and task = t2 and e = quiet_env
      and m = initial_metrics and w = world0]
  by (simp add: test_defs)

section \<open>Concurrent updates of the metrics\<close>




end
